theory Spec2Isabelle
  imports Main "HOL-Library.Sublist"
begin

section \<open>The setup-verification scripts of the medical chatbot\<close>

text \<open>
  The repository holds two straight-line diagnostic scripts, \<^verbatim>\<open>check_pinecone.py\<close> and
  \<^verbatim>\<open>test_setup.py\<close>. Every real piece of work is a call into a third-party library, so
  the embedding makes the outcome of each such call a field of a record \<open>world\<close>: a call
  either returns a value (\<open>Inr\<close>) or raises an \<^verbatim>\<open>Exception\<close>, of which only \<^verbatim>\<open>str(e)\<close>
  is ever used (\<open>Inl\<close>). What the scripts do themselves (printing, reading and writing
  \<^verbatim>\<open>os.environ\<close>, calling \<^verbatim>\<open>exit(1)\<close>, falling off the end of the file) is modelled step
  by step: a run yields the exit status of the process together with the final state,
  which holds the trace of everything printed and every external call made, in order.

  Modelling conventions.
  \<^item> One \<^verbatim>\<open>print\<close> call is one output line; a line is the string given to \<^verbatim>\<open>print\<close>,
    as the bytes of its UTF-8 encoding.
  \<^item> \<^verbatim>\<open>exit(1)\<close> raises \<^verbatim>\<open>SystemExit\<close>, which is not an \<^verbatim>\<open>Exception\<close>: the enclosing
    \<^verbatim>\<open>except Exception\<close> does not catch it and the process ends with status 1.
  \<^item> A script that reaches the end of the file ends with status 0.
  \<^item> Values returned by the libraries have the types the scripts use them at (a list of
    pages, index descriptions with a \<^verbatim>\<open>name\<close>, a reply with a string \<^verbatim>\<open>content\<close>, held
    as the list of its characters, each as its UTF-8 bytes, so that a slice counts
    characters).
  \<^item> The names bound by the \<^verbatim>\<open>import\<close> statements are taken as bound wherever they are
    used; the variables the checks assign are \<open>Unbound\<close> until assigned, and reading an
    unbound one raises \<^verbatim>\<open>NameError\<close>, an \<^verbatim>\<open>Exception\<close>.
  \<^item> The constant arguments \<^verbatim>\<open>temperature=0.4\<close> and \<^verbatim>\<open>model="gemini-1.5-flash"\<close> never vary;
    only the model name is recorded in the trace.
\<close>

subsection \<open>Values, external calls and the trace\<close>

type_synonym exn = string

type_synonym document = string
type_synonym chunk = string
type_synonym client = nat
type_synonym embedding_model = nat
type_synonym chat_model = nat

datatype index_model = IndexModel (name: string)

datatype ai_message = AIMessage (content: "string list")

datatype call =
    ImportModules
  | LoadDotenv
  | NewPinecone "string option"
  | ListIndexes client
  | LoadPdfFile string
  | TextSplit "document list"
  | DownloadEmbeddings
  | SetEnviron string string
  | NewChatModel string
  | Invoke chat_model string

datatype event = Print string | Call call

datatype 'a var = Unbound | Bound 'a

record state =
  trace :: "event list"
  environ :: "string \<rightharpoonup> string"
  PINECONE_API_KEY :: "string option var"
  GOOGLE_API_KEY :: "string option var"
  extracted_data :: "document list var"

record world =
  os_environ :: "string \<rightharpoonup> string"
  import_check_pinecone :: "exn option"
  import_test_setup :: "exn option"
  load_dotenv :: "(string \<rightharpoonup> string) \<Rightarrow> exn + (string \<rightharpoonup> string)"
  Pinecone :: "string option \<Rightarrow> exn + client"
  list_indexes :: "client \<Rightarrow> exn + index_model list"
  load_pdf_file :: "string \<Rightarrow> exn + document list"
  text_split :: "document list \<Rightarrow> exn + chunk list"
  download_hugging_face_embeddings :: "exn + embedding_model"
  ChatGoogleGenerativeAI :: "string \<Rightarrow> (string \<rightharpoonup> string) \<Rightarrow> exn + chat_model"
  invoke :: "chat_model \<Rightarrow> string \<Rightarrow> exn + ai_message"
  repr_str :: "string \<Rightarrow> string"

definition py_print :: "string \<Rightarrow> state \<Rightarrow> state" where
  "py_print l s = s\<lparr>trace := trace s @ [Print l]\<rparr>"

definition record_call :: "call \<Rightarrow> state \<Rightarrow> state" where
  "record_call c s = s\<lparr>trace := trace s @ [Call c]\<rparr>"

fun printed :: "event list \<Rightarrow> string list" where
  "printed [] = []"
| "printed (Print l # es) = l # printed es"
| "printed (Call c # es) = printed es"

fun calls :: "event list \<Rightarrow> call list" where
  "calls [] = []"
| "calls (Print l # es) = calls es"
| "calls (Call c # es) = c # calls es"

definition stdout :: "state \<Rightarrow> string list" where
  "stdout s = printed (trace s)"

definition initial :: "world \<Rightarrow> state" where
  "initial w = \<lparr>trace = [], environ = os_environ w, PINECONE_API_KEY = Unbound,
     GOOGLE_API_KEY = Unbound, extracted_data = Unbound\<rparr>"

subsection \<open>Python values as text\<close>

text \<open>Truthiness of what \<^verbatim>\<open>os.environ.get\<close> returns: \<^verbatim>\<open>None\<close> and \<^verbatim>\<open>''\<close> are falsy.\<close>

fun truthy :: "string option \<Rightarrow> bool" where
  "truthy None = False"
| "truthy (Some v) = (v \<noteq> [])"

definition digit :: "nat \<Rightarrow> char" where
  "digit d = char_of (48 + d)"

fun str_nat :: "nat \<Rightarrow> string" where
  "str_nat n = (if n < 10 then [digit n] else str_nat (n div 10) @ [digit (n mod 10)])"

declare str_nat.simps [simp del]

text \<open>
  \<^verbatim>\<open>str\<close> of a list of strings: the \<^verbatim>\<open>repr\<close> of each element (a parameter of the world),
  separated by a comma and a space, in square brackets.
\<close>

fun join :: "string \<Rightarrow> string list \<Rightarrow> string" where
  "join sep [] = []"
| "join sep [x] = x"
| "join sep (x # y # ys) = x @ sep @ join sep (y # ys)"

definition str_list :: "world \<Rightarrow> string list \<Rightarrow> string" where
  "str_list w xs = ''['' @ join '', '' (map (repr_str w) xs) @ '']''"

text \<open>The symbols the scripts print, as UTF-8 bytes.\<close>

definition magnifier :: string where
  "magnifier = [CHR 0xF0, CHR 0x9F, CHR 0x94, CHR 0x8D]"

definition cross_mark :: string where
  "cross_mark = [CHR 0xE2, CHR 0x9D, CHR 0x8C]"

definition check_mark :: string where
  "check_mark = [CHR 0xE2, CHR 0x9C, CHR 0x85]"

definition clipboard :: string where
  "clipboard = [CHR 0xF0, CHR 0x9F, CHR 0x93, CHR 0x8B]"

definition party :: string where
  "party = [CHR 0xF0, CHR 0x9F, CHR 0x8E, CHR 0x89]"

definition warning_sign :: string where
  "warning_sign = [CHR 0xE2, CHR 0x9A, CHR 0xA0, CHR 0xEF, CHR 0xB8, CHR 0x8F]"

definition memo :: string where
  "memo = [CHR 0xF0, CHR 0x9F, CHR 0x93, CHR 0x9D]"

definition bulb :: string where
  "bulb = [CHR 0xF0, CHR 0x9F, CHR 0x92, CHR 0xA1]"

subsection \<open>check_pinecone.py\<close>

text \<open>
  The whole script is one \<^verbatim>\<open>try\<close> block. Its \<^verbatim>\<open>except Exception\<close> handler prints the
  error and does nothing else, so after it the script reaches the end of the file.
\<close>

definition cp_header :: string where
  "cp_header = magnifier @ '' Checking Pinecone Index...''"

definition cp_key_missing :: string where
  "cp_key_missing = cross_mark @ '' PINECONE_API_KEY not found in .env file''"

definition cp_available :: "world \<Rightarrow> string list \<Rightarrow> string" where
  "cp_available w names = clipboard @ '' Available indexes: '' @ str_list w names"

definition cp_exists :: string where
  "cp_exists = check_mark @ '' '' @ [CHR 0x27] @ ''medicalbot'' @ [CHR 0x27] @ '' index exists!''"

definition cp_ready :: string where
  "cp_ready = party @ '' Your Pinecone setup is ready!''"

definition cp_not_found :: string where
  "cp_not_found = warning_sign @ ''  '' @ [CHR 0x27] @ ''medicalbot'' @ [CHR 0x27] @ '' index not found.''"

definition cp_guidance :: string where
  "cp_guidance = memo @ '' Run: python store_index.py to create it''"

definition cp_error :: "exn \<Rightarrow> string" where
  "cp_error e = cross_mark @ '' Error: '' @ e"

definition cp_except :: "exn \<Rightarrow> state \<Rightarrow> nat \<times> state" where
  "cp_except e s = (0, py_print (cp_error e) s)"

definition cp_report :: "world \<Rightarrow> index_model list \<Rightarrow> state \<Rightarrow> nat \<times> state" where
  "cp_report w indexes s =
     (let index_names = map name indexes;
          s1 = py_print (cp_available w index_names) s
      in if ''medicalbot'' \<in> set index_names
         then (0, py_print cp_ready (py_print cp_exists s1))
         else (0, py_print cp_guidance (py_print cp_not_found s1)))"

definition cp_connect :: "world \<Rightarrow> string option \<Rightarrow> state \<Rightarrow> nat \<times> state" where
  "cp_connect w key s =
     (let s1 = record_call (NewPinecone key) s
      in case Pinecone w key of
           Inl e \<Rightarrow> cp_except e s1
         | Inr pc \<Rightarrow>
             (let s2 = record_call (ListIndexes pc) s1
              in case list_indexes w pc of
                   Inl e \<Rightarrow> cp_except e s2
                 | Inr indexes \<Rightarrow> cp_report w indexes s2))"

definition check_pinecone :: "world \<Rightarrow> nat \<times> state" where
  "check_pinecone w =
     (let s0 = py_print cp_header (initial w);
          s1 = record_call ImportModules s0
      in case import_check_pinecone w of
           Some e \<Rightarrow> cp_except e s1
         | None \<Rightarrow>
             (let s2 = record_call LoadDotenv s1
              in case load_dotenv w (environ s2) of
                   Inl e \<Rightarrow> cp_except e s2
                 | Inr env \<Rightarrow>
                     (let s3 = s2\<lparr>environ := env\<rparr>;
                          key = environ s3 ''PINECONE_API_KEY'';
                          s4 = s3\<lparr>PINECONE_API_KEY := Bound key\<rparr>
                      in if \<not> truthy key
                         then (1, py_print cp_key_missing s4)
                         else cp_connect w key s4)))"

subsection \<open>test_setup.py\<close>

text \<open>
  Seven \<^verbatim>\<open>try\<close> blocks in a row. Each prints the line announcing it, does its work and
  prints a success line; its \<^verbatim>\<open>except Exception\<close> handler prints a failure line and calls
  \<^verbatim>\<open>exit(1)\<close>. A block is a function from the state to a \<open>flow\<close>: \<open>Continue\<close> when control
  falls through to the next statement, \<open>Exit n\<close> when the process ends with status \<open>n\<close>.
\<close>

datatype flow = Continue state | Exit nat state

definition name_error :: "string \<Rightarrow> exn" where
  "name_error v = ''name '' @ [CHR 0x27] @ v @ [CHR 0x27] @ '' is not defined''"

definition ok_line :: "string \<Rightarrow> string" where
  "ok_line msg = ''   '' @ check_mark @ '' '' @ msg"

definition error_line :: "string \<Rightarrow> exn \<Rightarrow> string" where
  "error_line what e = ''   '' @ cross_mark @ '' '' @ what @ '': '' @ e"

definition keys_missing_line :: string where
  "keys_missing_line = ''   '' @ cross_mark @ '' API keys not found in .env file''"

definition tip_line :: string where
  "tip_line = ''   '' @ bulb @
     '' Tip: Check if your Google API key is valid and has Gemini access enabled''"

definition ts_header :: string where
  "ts_header = magnifier @ '' Testing Medical Chatbot Setup...''"

definition separator :: string where
  "separator = replicate 50 (CHR ''='')"

definition test1 :: "world \<Rightarrow> state \<Rightarrow> flow" where
  "test1 w s =
     (let s1 = py_print ''1. Testing imports...'' s;
          s2 = record_call ImportModules s1
      in case import_test_setup w of
           Some e \<Rightarrow> Exit 1 (py_print (error_line ''Import error'' e) s2)
         | None \<Rightarrow> Continue (py_print (ok_line ''All imports successful!'') s2))"

definition test2 :: "world \<Rightarrow> state \<Rightarrow> flow" where
  "test2 w s =
     (let s1 = py_print ''2. Testing environment variables...'' s;
          s2 = record_call LoadDotenv s1
      in case load_dotenv w (environ s2) of
           Inl e \<Rightarrow> Exit 1 (py_print (error_line ''Environment error'' e) s2)
         | Inr env \<Rightarrow>
             (let s3 = s2\<lparr>environ := env\<rparr>;
                  s4 = s3\<lparr>PINECONE_API_KEY := Bound (environ s3 ''PINECONE_API_KEY'')\<rparr>;
                  s5 = s4\<lparr>GOOGLE_API_KEY := Bound (environ s4 ''GOOGLE_API_KEY'')\<rparr>
              in if truthy (environ s3 ''PINECONE_API_KEY'') \<and> truthy (environ s4 ''GOOGLE_API_KEY'')
                 then Continue (py_print (ok_line ''API keys loaded successfully!'') s5)
                 else Exit 1 (py_print keys_missing_line s5)))"

definition test3 :: "world \<Rightarrow> state \<Rightarrow> flow" where
  "test3 w s =
     (let s1 = py_print ''3. Testing PDF loading...'' s;
          s2 = record_call (LoadPdfFile ''Data/'') s1
      in case load_pdf_file w ''Data/'' of
           Inl e \<Rightarrow> Exit 1 (py_print (error_line ''PDF loading error'' e) s2)
         | Inr pages \<Rightarrow>
             Continue (py_print (ok_line (''Loaded '' @ str_nat (length pages) @ '' PDF pages!''))
               (s2\<lparr>extracted_data := Bound pages\<rparr>)))"

definition test4 :: "world \<Rightarrow> state \<Rightarrow> flow" where
  "test4 w s =
     (let s1 = py_print ''4. Testing text chunking...'' s
      in case extracted_data s1 of
           Unbound \<Rightarrow>
             Exit 1 (py_print (error_line ''Text chunking error'' (name_error ''extracted_data'')) s1)
         | Bound pages \<Rightarrow>
             (let s2 = record_call (TextSplit pages) s1
              in case text_split w pages of
                   Inl e \<Rightarrow> Exit 1 (py_print (error_line ''Text chunking error'' e) s2)
                 | Inr text_chunks \<Rightarrow>
                     Continue (py_print
                       (ok_line (''Created '' @ str_nat (length text_chunks) @ '' text chunks!'')) s2)))"

definition test5 :: "world \<Rightarrow> state \<Rightarrow> flow" where
  "test5 w s =
     (let s1 = py_print ''5. Testing embeddings...'' s;
          s2 = record_call DownloadEmbeddings s1
      in case download_hugging_face_embeddings w of
           Inl e \<Rightarrow> Exit 1 (py_print (error_line ''Embeddings error'' e) s2)
         | Inr embeddings \<Rightarrow>
             Continue (py_print (ok_line ''Embeddings model loaded successfully!'') s2))"

definition test6 :: "world \<Rightarrow> state \<Rightarrow> flow" where
  "test6 w s =
     (let s1 = py_print ''6. Testing Pinecone connection...'' s
      in case PINECONE_API_KEY s1 of
           Unbound \<Rightarrow>
             Exit 1 (py_print
               (error_line ''Pinecone connection error'' (name_error ''PINECONE_API_KEY'')) s1)
         | Bound key \<Rightarrow>
             (let s2 = record_call (NewPinecone key) s1
              in case Pinecone w key of
                   Inl e \<Rightarrow> Exit 1 (py_print (error_line ''Pinecone connection error'' e) s2)
                 | Inr pc \<Rightarrow>
                     (let s3 = record_call (ListIndexes pc) s2
                      in case list_indexes w pc of
                           Inl e \<Rightarrow>
                             Exit 1 (py_print (error_line ''Pinecone connection error'' e) s3)
                         | Inr indexes \<Rightarrow>
                             Continue (py_print
                               (ok_line (''Pinecone connected! Available indexes: '' @
                                  str_list w (map name indexes))) s3))))"

text \<open>
  The handler of the last block prints two lines, the failure line and a tip. On success
  the block prints two lines as well: the success line and the first 50 characters of the
  reply.
\<close>

definition response_line :: "ai_message \<Rightarrow> string" where
  "response_line test_response =
     ''   Test response: '' @ concat (take 50 (content test_response)) @ ''...''"

definition gemini_except :: "exn \<Rightarrow> state \<Rightarrow> flow" where
  "gemini_except e s = Exit 1 (py_print tip_line (py_print (error_line ''Gemini AI error'' e) s))"

definition test7 :: "world \<Rightarrow> state \<Rightarrow> flow" where
  "test7 w s =
     (let s1 = py_print ''7. Testing Gemini AI connection...'' s
      in case GOOGLE_API_KEY s1 of
           Unbound \<Rightarrow> gemini_except (name_error ''GOOGLE_API_KEY'') s1
         | Bound None \<Rightarrow> gemini_except ''str expected, not NoneType'' s1
         | Bound (Some v) \<Rightarrow>
             (let s2 = record_call (SetEnviron ''GOOGLE_API_KEY'' v) s1;
                  s3 = s2\<lparr>environ := (environ s2)(''GOOGLE_API_KEY'' \<mapsto> v)\<rparr>;
                  s4 = record_call (NewChatModel ''gemini-1.5-flash'') s3
              in case ChatGoogleGenerativeAI w ''gemini-1.5-flash'' (environ s4) of
                   Inl e \<Rightarrow> gemini_except e s4
                 | Inr llm \<Rightarrow>
                     (let s5 = record_call (Invoke llm ''Hello, this is a test.'') s4
                      in case invoke w llm ''Hello, this is a test.'' of
                           Inl e \<Rightarrow> gemini_except e s5
                         | Inr test_response \<Rightarrow>
                             Continue (py_print (response_line test_response)
                               (py_print
                                 (ok_line ''Gemini AI model initialized and tested successfully!'')
                                 s5)))))"

definition ts_banner :: "state \<Rightarrow> state" where
  "ts_banner s =
     py_print ''   3. Open: http://localhost:8080 (to use the chatbot)''
       (py_print ''   2. Run: python app.py (to start the web application)''
         (py_print ''   1. Run: python store_index.py (to create vector database)''
           (py_print (clipboard @ '' Next steps:'')
             (py_print (party @ '' ALL TESTS PASSED! Your medical chatbot is ready!'')
               (py_print separator s)))))"

text \<open>
  The blocks run one after the other; the first \<open>Exit\<close> ends the process. \<open>run_checks\<close>
  carries the position of the block being run, so that the outcome names the block that
  ended the run.
\<close>

datatype outcome = Completed state | Failed nat nat state

fun run_checks :: "nat \<Rightarrow> (state \<Rightarrow> flow) list \<Rightarrow> state \<Rightarrow> outcome" where
  "run_checks i [] s = Completed s"
| "run_checks i (c # cs) s =
     (case c s of
        Continue s' \<Rightarrow> run_checks (Suc i) cs s'
      | Exit n s' \<Rightarrow> Failed i n s')"

definition checks :: "world \<Rightarrow> (state \<Rightarrow> flow) list" where
  "checks w = [test1 w, test2 w, test3 w, test4 w, test5 w, test6 w, test7 w]"

definition ts_start :: "world \<Rightarrow> state" where
  "ts_start w = py_print separator (py_print ts_header (initial w))"

definition ts_outcome :: "world \<Rightarrow> outcome" where
  "ts_outcome w = run_checks 1 (checks w) (ts_start w)"

definition test_setup :: "world \<Rightarrow> nat \<times> state" where
  "test_setup w =
     (case ts_outcome w of
        Completed s \<Rightarrow> (0, ts_banner s)
      | Failed k n s \<Rightarrow> (n, s))"

subsection \<open>Reading a trace\<close>

fun flow_state :: "flow \<Rightarrow> state" where
  "flow_state (Continue s) = s"
| "flow_state (Exit n s) = s"

text \<open>What a block adds to the trace when it is run from state \<open>s\<close>.\<close>

definition emitted :: "(state \<Rightarrow> flow) \<Rightarrow> state \<Rightarrow> event list" where
  "emitted c s = drop (length (trace s)) (trace (flow_state (c s)))"

text \<open>
  The events of check \<open>k\<close> in the run of \<^verbatim>\<open>test_setup.py\<close> in world \<open>w\<close>: \<open>None\<close> when the run
  ends before check \<open>k\<close> is reached.
\<close>

definition check_events :: "world \<Rightarrow> nat \<Rightarrow> event list option" where
  "check_events w k =
     (case run_checks 1 (take (k - 1) (checks w)) (ts_start w) of
        Completed s \<Rightarrow> Some (emitted (checks w ! (k - 1)) s)
      | Failed j n s \<Rightarrow> None)"




text \<open>
  The three kinds of line of the checklist: the line announcing check \<open>k\<close> starts with
  \<open>k\<close>, a full stop and \<^verbatim>\<open>Testing\<close>; a success line starts with three spaces and the check
  mark; a failure line starts with three spaces and the cross.
\<close>

definition begin_index :: "string \<Rightarrow> nat option" where
  "begin_index l = find (\<lambda>k. prefix (str_nat k @ ''. Testing '') l) [1, 2, 3, 4, 5, 6, 7]"

definition is_begin_line :: "string \<Rightarrow> bool" where
  "is_begin_line l = (begin_index l \<noteq> None)"

definition is_success_line :: "string \<Rightarrow> bool" where
  "is_success_line l = prefix (''   '' @ check_mark) l"

definition is_failure_line :: "string \<Rightarrow> bool" where
  "is_failure_line l = prefix (''   '' @ cross_mark) l"

text \<open>The check of \<^verbatim>\<open>test_setup.py\<close> an external call belongs to.\<close>

fun check_of :: "call \<Rightarrow> nat" where
  "check_of ImportModules = 1"
| "check_of LoadDotenv = 2"
| "check_of (LoadPdfFile d) = 3"
| "check_of (TextSplit pages) = 4"
| "check_of DownloadEmbeddings = 5"
| "check_of (NewPinecone key) = 6"
| "check_of (ListIndexes pc) = 6"
| "check_of (SetEnviron k v) = 7"
| "check_of (NewChatModel m) = 7"
| "check_of (Invoke llm p) = 7"


text \<open>The check that ended the run of \<^verbatim>\<open>test_setup.py\<close>, if any.\<close>

definition failed_check :: "world \<Rightarrow> nat option" where
  "failed_check w = (case ts_outcome w of Completed s \<Rightarrow> None | Failed k n s \<Rightarrow> Some k)"

text \<open>
  The environment the key checks read: the process environment after \<^verbatim>\<open>load_dotenv()\<close>,
  which is the initial one when \<^verbatim>\<open>load_dotenv\<close> raises.
\<close>

definition environ_read :: "world \<Rightarrow> (string \<rightharpoonup> string)" where
  "environ_read w = (case load_dotenv w (os_environ w) of Inl e \<Rightarrow> os_environ w | Inr env \<Rightarrow> env)"

text \<open>
  The action of check \<open>k\<close> fails: one of its library calls raises or, for check 2, a key is
  falsy. This is read off the world alone; the arguments are the values the earlier
  checks produce (the pages loaded, the environment after \<^verbatim>\<open>load_dotenv()\<close>), so the
  definition is meant for a check whose predecessors did not fail.
\<close>

definition action_fails :: "world \<Rightarrow> nat \<Rightarrow> bool" where
  "action_fails w k =
     (if k = 1 then import_test_setup w \<noteq> None
      else if k = 2 then
        (case load_dotenv w (os_environ w) of
           Inl e \<Rightarrow> True
         | Inr env \<Rightarrow> \<not> (truthy (env ''PINECONE_API_KEY'') \<and> truthy (env ''GOOGLE_API_KEY'')))
      else if k = 3 then
        (case load_pdf_file w ''Data/'' of Inl e \<Rightarrow> True | Inr pages \<Rightarrow> False)
      else if k = 4 then
        (case load_pdf_file w ''Data/'' of
           Inl e \<Rightarrow> False
         | Inr pages \<Rightarrow> (case text_split w pages of Inl e \<Rightarrow> True | Inr text_chunks \<Rightarrow> False))
      else if k = 5 then
        (case download_hugging_face_embeddings w of Inl e \<Rightarrow> True | Inr embeddings \<Rightarrow> False)
      else if k = 6 then
        (case Pinecone w (environ_read w ''PINECONE_API_KEY'') of
           Inl e \<Rightarrow> True
         | Inr pc \<Rightarrow> (case list_indexes w pc of Inl e \<Rightarrow> True | Inr indexes \<Rightarrow> False))
      else if k = 7 then
        (case ChatGoogleGenerativeAI w ''gemini-1.5-flash'' (environ_read w) of
           Inl e \<Rightarrow> True
         | Inr llm \<Rightarrow>
             (case invoke w llm ''Hello, this is a test.'' of
                Inl e \<Rightarrow> True
              | Inr test_response \<Rightarrow> False))
      else False)"

text \<open>The indices of the announcing lines of an output, in the order printed.\<close>

definition begun :: "string list \<Rightarrow> nat list" where
  "begun ls = List.map_filter begin_index ls"

text \<open>The six lines \<^verbatim>\<open>test_setup.py\<close> prints after the last check.\<close>

definition banner_lines :: "string list" where
  "banner_lines =
     [separator,
      party @ '' ALL TESTS PASSED! Your medical chatbot is ready!'',
      clipboard @ '' Next steps:'',
      ''   1. Run: python store_index.py (to create vector database)'',
      ''   2. Run: python app.py (to start the web application)'',
      ''   3. Open: http://localhost:8080 (to use the chatbot)'']"

subsection \<open>Concrete worlds\<close>

text \<open>
  A world in which every library call succeeds: the \<^verbatim>\<open>.env\<close> file supplies both keys, the
  vector service has the index \<^verbatim>\<open>medicalbot\<close>, two pages are loaded.
\<close>

definition good_world :: world where
  "good_world =
     \<lparr>os_environ = Map.empty,
      import_check_pinecone = None,
      import_test_setup = None,
      load_dotenv = (\<lambda>env. Inr (env(''PINECONE_API_KEY'' \<mapsto> ''pk'', ''GOOGLE_API_KEY'' \<mapsto> ''gk''))),
      Pinecone = (\<lambda>key. Inr 0),
      list_indexes = (\<lambda>pc. Inr [IndexModel ''medicalbot'']),
      load_pdf_file = (\<lambda>d. Inr [''page one'', ''page two'']),
      text_split = (\<lambda>pages. Inr pages),
      download_hugging_face_embeddings = Inr 0,
      ChatGoogleGenerativeAI = (\<lambda>m env. Inr 0),
      invoke = (\<lambda>llm p. Inr (AIMessage [''H'', ''i''])),
      repr_str = (\<lambda>x. [CHR 0x27] @ x @ [CHR 0x27])\<rparr>"

text \<open>The same world, but listing the indexes raises.\<close>

definition list_indexes_fails_world :: world where
  "list_indexes_fails_world = good_world\<lparr>list_indexes := \<lambda>pc. Inl ''connection refused''\<rparr>"

text \<open>The index the script looks for is not there.\<close>

definition no_index_world :: world where
  "no_index_world = good_world\<lparr>list_indexes := \<lambda>pc. Inr [IndexModel ''other-index'']\<rparr>"

text \<open>Neither the process environment nor the \<^verbatim>\<open>.env\<close> file holds a key.\<close>

definition no_keys_world :: world where
  "no_keys_world = good_world\<lparr>load_dotenv := \<lambda>env. Inr env\<rparr>"

text \<open>The vector-database key is set, to the empty string.\<close>

definition empty_key_world :: world where
  "empty_key_world =
     good_world\<lparr>load_dotenv := \<lambda>env. Inr (env(''PINECONE_API_KEY'' \<mapsto> '''', ''GOOGLE_API_KEY'' \<mapsto> ''gk''))\<rparr>"

text \<open>Loading the documents raises; the language-model call raises.\<close>

definition pdf_fails_world :: world where
  "pdf_fails_world = good_world\<lparr>load_pdf_file := \<lambda>d. Inl ''Data/ not found''\<rparr>"

definition gemini_fails_world :: world where
  "gemini_fails_world = good_world\<lparr>invoke := \<lambda>llm p. Inl ''API key not valid''\<rparr>"

text \<open>No key anywhere, and the imports of both scripts raise.\<close>

definition imports_fail_world :: world where
  "imports_fail_world =
     no_keys_world\<lparr>import_check_pinecone := Some ''No module named pinecone'',
                    import_test_setup := Some ''No module named pinecone''\<rparr>"

subsection \<open>Invariants of the run\<close>

text \<open>
  Each invariant has two parts: what holds of the state in which check \<open>j\<close> starts, and
  what holds of the state in which a failing check \<open>k\<close> ends the process.

  Lines: before check \<open>j\<close> the checks \<open>1\<close> to \<open>j - 1\<close> have been announced, each has printed
  its success line, and there is no failure line.
\<close>

definition counts_before :: "nat \<Rightarrow> state \<Rightarrow> bool" where
  "counts_before j t \<longleftrightarrow>
     begun (stdout t) = [1..<j] \<and>
     length (filter is_success_line (stdout t)) = j - 1 \<and>
     filter is_failure_line (stdout t) = []"

definition counts_failed :: "nat \<Rightarrow> nat \<Rightarrow> state \<Rightarrow> bool" where
  "counts_failed k n t \<longleftrightarrow>
     n = 1 \<and> begun (stdout t) = [1..<Suc k] \<and>
     length (filter is_success_line (stdout t)) = k - 1 \<and>
     length (filter is_failure_line (stdout t)) = 1 \<and>
     (if k = 7 then last (stdout t) = tip_line \<and> is_failure_line (last (butlast (stdout t)))
      else is_failure_line (last (stdout t)))"

text \<open>
  External calls: the checks they belong to, in the order of a run in which nothing fails.
\<close>

definition call_order :: "nat list" where
  "call_order = [1, 2, 3, 4, 5, 6, 6, 7, 7, 7]"

definition calls_before :: "nat \<Rightarrow> state \<Rightarrow> bool" where
  "calls_before j t \<longleftrightarrow> map check_of (calls (trace t)) = filter (\<lambda>i. i < j) call_order"

definition calls_failed :: "nat \<Rightarrow> nat \<Rightarrow> state \<Rightarrow> bool" where
  "calls_failed k n t \<longleftrightarrow>
     prefix (map check_of (calls (trace t))) (filter (\<lambda>i. i \<le> k) call_order)"





text \<open>
  Reached states: check \<open>j\<close> starts only if no earlier action failed, and then the
  environment and the variables hold what the earlier checks produced; a check ends the
  process only if its action failed.
\<close>

definition reached_before :: "world \<Rightarrow> nat \<Rightarrow> state \<Rightarrow> bool" where
  "reached_before w j t \<longleftrightarrow>
     list_all (\<lambda>i. \<not> action_fails w i) [1..<j] \<and>
     (j \<le> 2 \<longrightarrow> environ t = os_environ w) \<and>
     (3 \<le> j \<longrightarrow> environ t = environ_read w \<and>
        PINECONE_API_KEY t = Bound (environ_read w ''PINECONE_API_KEY'') \<and>
        GOOGLE_API_KEY t = Bound (environ_read w ''GOOGLE_API_KEY'')) \<and>
     (4 \<le> j \<longrightarrow> (\<exists>pages. load_pdf_file w ''Data/'' = Inr pages \<and> extracted_data t = Bound pages))"

definition failed_at :: "world \<Rightarrow> nat \<Rightarrow> nat \<Rightarrow> state \<Rightarrow> bool" where
  "failed_at w k n t \<longleftrightarrow>
     n = 1 \<and> action_fails w k \<and> list_all (\<lambda>i. \<not> action_fails w i) [1..<k]"

section \<open>Auxiliary facts\<close>

subsection \<open>check_pinecone.py\<close>

lemmas cp_defs = check_pinecone_def cp_connect_def cp_report_def cp_except_def initial_def
  py_print_def record_call_def stdout_def Let_def

lemma cp_lines_distinct:
  "cp_exists \<noteq> cp_header" "cp_exists \<noteq> cp_available w ns" "cp_exists \<noteq> cp_not_found"
  "cp_exists \<noteq> cp_guidance" "cp_not_found \<noteq> cp_header" "cp_not_found \<noteq> cp_available w ns"
  "cp_not_found \<noteq> cp_exists" "cp_not_found \<noteq> cp_ready"
  by (simp_all add: cp_exists_def cp_header_def cp_available_def cp_not_found_def cp_guidance_def
      cp_ready_def check_mark_def magnifier_def clipboard_def warning_sign_def memo_def party_def)

subsection \<open>Kinds of line\<close>

lemma str_nat_small:
  "str_nat 1 = ''1''" "str_nat 2 = ''2''" "str_nat 3 = ''3''" "str_nat 4 = ''4''"
  "str_nat 5 = ''5''" "str_nat 6 = ''6''" "str_nat 7 = ''7''" "str_nat (Suc 0) = ''1''"
  by code_simp+

lemma begin_index_literals:
  "begin_index ''1. Testing imports...'' = Some 1"
  "begin_index ''2. Testing environment variables...'' = Some 2"
  "begin_index ''3. Testing PDF loading...'' = Some 3"
  "begin_index ''4. Testing text chunking...'' = Some 4"
  "begin_index ''5. Testing embeddings...'' = Some 5"
  "begin_index ''6. Testing Pinecone connection...'' = Some 6"
  "begin_index ''7. Testing Gemini AI connection...'' = Some 7"
  by (simp_all add: begin_index_def str_nat_small)

lemma begin_index_space: "begin_index (CHR '' '' # l) = None"
  by (simp add: begin_index_def str_nat_small)

lemma begin_index_others:
  "begin_index (ok_line m) = None" "begin_index (error_line what e) = None"
  "begin_index keys_missing_line = None" "begin_index tip_line = None"
  "begin_index (response_line r) = None"
  by (simp_all add: ok_line_def error_line_def keys_missing_line_def tip_line_def
      response_line_def begin_index_space)

lemma begin_index_closed:
  "begin_index ts_header = None" "begin_index separator = None"
  "begin_index (party @ '' ALL TESTS PASSED! Your medical chatbot is ready!'') = None"
  "begin_index (clipboard @ '' Next steps:'') = None"
  "begin_index ''   1. Run: python store_index.py (to create vector database)'' = None"
  "begin_index ''   2. Run: python app.py (to start the web application)'' = None"
  "begin_index ''   3. Open: http://localhost:8080 (to use the chatbot)'' = None"
  by code_simp+

lemma is_success_line_simps:
  "is_success_line (ok_line m)" "\<not> is_success_line (error_line what e)"
  "\<not> is_success_line keys_missing_line" "\<not> is_success_line tip_line"
  "\<not> is_success_line (response_line r)"
  "\<not> is_success_line ''1. Testing imports...''"
  "\<not> is_success_line ''2. Testing environment variables...''"
  "\<not> is_success_line ''3. Testing PDF loading...''"
  "\<not> is_success_line ''4. Testing text chunking...''"
  "\<not> is_success_line ''5. Testing embeddings...''"
  "\<not> is_success_line ''6. Testing Pinecone connection...''"
  "\<not> is_success_line ''7. Testing Gemini AI connection...''"
  by (simp_all add: is_success_line_def ok_line_def error_line_def keys_missing_line_def
      tip_line_def response_line_def check_mark_def cross_mark_def bulb_def)

lemma is_failure_line_simps:
  "\<not> is_failure_line (ok_line m)" "is_failure_line (error_line what e)"
  "is_failure_line keys_missing_line" "\<not> is_failure_line tip_line"
  "\<not> is_failure_line (response_line r)"
  "\<not> is_failure_line ''1. Testing imports...''"
  "\<not> is_failure_line ''2. Testing environment variables...''"
  "\<not> is_failure_line ''3. Testing PDF loading...''"
  "\<not> is_failure_line ''4. Testing text chunking...''"
  "\<not> is_failure_line ''5. Testing embeddings...''"
  "\<not> is_failure_line ''6. Testing Pinecone connection...''"
  "\<not> is_failure_line ''7. Testing Gemini AI connection...''"
  by (simp_all add: is_failure_line_def ok_line_def error_line_def keys_missing_line_def
      tip_line_def response_line_def check_mark_def cross_mark_def bulb_def)

lemma line_kind_closed:
  "\<not> is_success_line ts_header" "\<not> is_success_line separator"
  "\<not> is_failure_line ts_header" "\<not> is_failure_line separator"
  "\<not> is_success_line (party @ '' ALL TESTS PASSED! Your medical chatbot is ready!'')"
  "\<not> is_success_line (clipboard @ '' Next steps:'')"
  "\<not> is_success_line ''   1. Run: python store_index.py (to create vector database)''"
  "\<not> is_success_line ''   2. Run: python app.py (to start the web application)''"
  "\<not> is_success_line ''   3. Open: http://localhost:8080 (to use the chatbot)''"
  "\<not> is_failure_line (party @ '' ALL TESTS PASSED! Your medical chatbot is ready!'')"
  "\<not> is_failure_line (clipboard @ '' Next steps:'')"
  "\<not> is_failure_line ''   1. Run: python store_index.py (to create vector database)''"
  "\<not> is_failure_line ''   2. Run: python app.py (to start the web application)''"
  "\<not> is_failure_line ''   3. Open: http://localhost:8080 (to use the chatbot)''"
  by code_simp+

lemma printed_append: "printed (xs @ ys) = printed xs @ printed ys"
  by (induction xs rule: printed.induct) simp_all

lemma calls_append: "calls (xs @ ys) = calls xs @ calls ys"
  by (induction xs rule: calls.induct) simp_all


lemma begun_simps:
  "begun [] = []"
  "begun (l # ls) = (case begin_index l of None \<Rightarrow> begun ls | Some k \<Rightarrow> k # begun ls)"
  by (simp_all add: begun_def map_filter_simps split: option.splits)

lemma begun_append: "begun (xs @ ys) = begun xs @ begun ys"
  by (induction xs) (simp_all add: begun_simps split: option.splits)

lemmas line_simps = begin_index_literals begin_index_others begin_index_closed
  is_success_line_simps is_failure_line_simps line_kind_closed begun_simps begun_append
  printed_append calls_append

lemmas step_defs = py_print_def record_call_def stdout_def Let_def gemini_except_def

lemma upt_small:
  "[1..<2] = [1::nat]" "[1..<3] = [1::nat, 2]" "[1..<4] = [1::nat, 2, 3]" "[1..<5] = [1::nat, 2, 3, 4]"
  "[1..<6] = [1::nat, 2, 3, 4, 5]" "[1..<7] = [1::nat, 2, 3, 4, 5, 6]"
  "[1..<8] = [1::nat, 2, 3, 4, 5, 6, 7]" "[1..<1] = ([]::nat list)"
  "[Suc 0..<2] = [Suc 0]" "[Suc 0..<3] = [Suc 0, 2]" "[Suc 0..<4] = [Suc 0, 2, 3]"
  "[Suc 0..<5] = [Suc 0, 2, 3, 4]" "[Suc 0..<6] = [Suc 0, 2, 3, 4, 5]"
  "[Suc 0..<7] = [Suc 0, 2, 3, 4, 5, 6]" "[Suc 0..<8] = [Suc 0, 2, 3, 4, 5, 6, 7]"
  by code_simp+

lemma length_filter_begin: "length (filter is_begin_line ls) = length (begun ls)"
  by (induction ls) (simp_all add: begun_simps is_begin_line_def split: option.splits)

lemma stdout_ts_banner: "stdout (ts_banner s) = stdout s @ banner_lines"
  by (simp add: ts_banner_def banner_lines_def step_defs line_simps)

lemma trace_ts_banner: "calls (trace (ts_banner s)) = calls (trace s)"
  by (simp add: ts_banner_def step_defs line_simps)

lemma banner_lines_kinds:
  "begun banner_lines = []" "filter is_success_line banner_lines = []"
  "filter is_failure_line banner_lines = []"
  by (simp_all add: banner_lines_def line_simps)

subsection \<open>Running the checks in sequence\<close>

text \<open>
  A rule in the style of Hoare logic for \<open>run_checks\<close>: if \<open>I\<close> holds at the start, every
  check that continues takes \<open>I\<close> at its position to \<open>I\<close> at the next, and every check that
  exits establishes \<open>Q\<close>, then the outcome satisfies \<open>I\<close> or \<open>Q\<close>.
\<close>

lemma run_checks_rule:
  fixes I :: "nat \<Rightarrow> state \<Rightarrow> bool" and Q :: "nat \<Rightarrow> nat \<Rightarrow> state \<Rightarrow> bool"
  assumes "I i s"
    and "\<And>j t t'. j < length cs \<Longrightarrow> I (i + j) t \<Longrightarrow> (cs ! j) t = Continue t' \<Longrightarrow> I (Suc (i + j)) t'"
    and "\<And>j t n t'. j < length cs \<Longrightarrow> I (i + j) t \<Longrightarrow> (cs ! j) t = Exit n t' \<Longrightarrow> Q (i + j) n t'"
  shows "case run_checks i cs s of Completed s' \<Rightarrow> I (i + length cs) s' | Failed k n s' \<Rightarrow> Q k n s'"
  using assms
proof (induction cs arbitrary: i s)
  case Nil
  then show ?case by simp
next
  case (Cons c cs)
  show ?case
  proof (cases "c s")
    case (Continue t)
    have I': "I (Suc i) t" using Cons.prems(2)[of 0 s t] Cons.prems(1) Continue by simp
    have "case run_checks (Suc i) cs t of Completed s' \<Rightarrow> I (Suc i + length cs) s' | Failed k n s' \<Rightarrow> Q k n s'"
    proof (rule Cons.IH[OF I'])
      fix j u u' assume "j < length cs" "I (Suc i + j) u" "(cs ! j) u = Continue u'"
      then show "I (Suc (Suc i + j)) u'" using Cons.prems(2)[of "Suc j" u u'] by simp
    next
      fix j u n u' assume "j < length cs" "I (Suc i + j) u" "(cs ! j) u = Exit n u'"
      then show "Q (Suc i + j) n u'" using Cons.prems(3)[of "Suc j" u n u'] by simp
    qed
    then show ?thesis using Continue by (simp split: outcome.splits)
  next
    case (Exit n t)
    then show ?thesis using Cons.prems(3)[of 0 s n t] Cons.prems(1) by simp
  qed
qed

lemma ts_prefix_rule:
  fixes I :: "nat \<Rightarrow> state \<Rightarrow> bool" and Q :: "nat \<Rightarrow> nat \<Rightarrow> state \<Rightarrow> bool"
  assumes "I 1 (ts_start w)"
    and "\<And>t t'. I 1 t \<Longrightarrow> test1 w t = Continue t' \<Longrightarrow> I 2 t'"
    and "\<And>t t'. I 2 t \<Longrightarrow> test2 w t = Continue t' \<Longrightarrow> I 3 t'"
    and "\<And>t t'. I 3 t \<Longrightarrow> test3 w t = Continue t' \<Longrightarrow> I 4 t'"
    and "\<And>t t'. I 4 t \<Longrightarrow> test4 w t = Continue t' \<Longrightarrow> I 5 t'"
    and "\<And>t t'. I 5 t \<Longrightarrow> test5 w t = Continue t' \<Longrightarrow> I 6 t'"
    and "\<And>t t'. I 6 t \<Longrightarrow> test6 w t = Continue t' \<Longrightarrow> I 7 t'"
    and "\<And>t t'. I 7 t \<Longrightarrow> test7 w t = Continue t' \<Longrightarrow> I 8 t'"
    and "\<And>t n t'. I 1 t \<Longrightarrow> test1 w t = Exit n t' \<Longrightarrow> Q 1 n t'"
    and "\<And>t n t'. I 2 t \<Longrightarrow> test2 w t = Exit n t' \<Longrightarrow> Q 2 n t'"
    and "\<And>t n t'. I 3 t \<Longrightarrow> test3 w t = Exit n t' \<Longrightarrow> Q 3 n t'"
    and "\<And>t n t'. I 4 t \<Longrightarrow> test4 w t = Exit n t' \<Longrightarrow> Q 4 n t'"
    and "\<And>t n t'. I 5 t \<Longrightarrow> test5 w t = Exit n t' \<Longrightarrow> Q 5 n t'"
    and "\<And>t n t'. I 6 t \<Longrightarrow> test6 w t = Exit n t' \<Longrightarrow> Q 6 n t'"
    and "\<And>t n t'. I 7 t \<Longrightarrow> test7 w t = Exit n t' \<Longrightarrow> Q 7 n t'"
    and "m \<le> 7"
  shows "case run_checks 1 (take m (checks w)) (ts_start w) of
           Completed s' \<Rightarrow> I (Suc m) s' | Failed k n s' \<Rightarrow> Q k n s'"
proof -
  have len: "length (take m (checks w)) = m" using \<open>m \<le> 7\<close> by (simp add: checks_def)
  have nth: "\<And>j. j < 7 \<Longrightarrow> j = 0 \<or> j = 1 \<or> j = 2 \<or> j = 3 \<or> j = 4 \<or> j = 5 \<or> j = (6::nat)" by arith
  have "case run_checks 1 (take m (checks w)) (ts_start w) of
          Completed s' \<Rightarrow> I (1 + length (take m (checks w))) s' | Failed k n s' \<Rightarrow> Q k n s'"
  proof (rule run_checks_rule[where I = I and Q = Q, OF assms(1)])
    fix j t t'
    assume a: "j < length (take m (checks w))" "I (1 + j) t" "(take m (checks w) ! j) t = Continue t'"
    then have "j < 7" "(checks w ! j) t = Continue t'" using \<open>m \<le> 7\<close> by (simp_all add: len)
    then show "I (Suc (1 + j)) t'"
      using a(2) nth[of j] assms(2-8)[of t t'] by (auto simp: checks_def numeral_eq_Suc)
  next
    fix j t n t'
    assume a: "j < length (take m (checks w))" "I (1 + j) t" "(take m (checks w) ! j) t = Exit n t'"
    then have "j < 7" "(checks w ! j) t = Exit n t'" using \<open>m \<le> 7\<close> by (simp_all add: len)
    then show "Q (1 + j) n t'"
      using a(2) nth[of j] assms(9-15)[of t n t'] by (auto simp: checks_def numeral_eq_Suc)
  qed
  then show ?thesis unfolding len by (simp split: outcome.splits)
qed

lemma ts_outcome_rule:
  fixes I :: "nat \<Rightarrow> state \<Rightarrow> bool" and Q :: "nat \<Rightarrow> nat \<Rightarrow> state \<Rightarrow> bool"
  assumes "I 1 (ts_start w)"
    and "\<And>t t'. I 1 t \<Longrightarrow> test1 w t = Continue t' \<Longrightarrow> I 2 t'"
    and "\<And>t t'. I 2 t \<Longrightarrow> test2 w t = Continue t' \<Longrightarrow> I 3 t'"
    and "\<And>t t'. I 3 t \<Longrightarrow> test3 w t = Continue t' \<Longrightarrow> I 4 t'"
    and "\<And>t t'. I 4 t \<Longrightarrow> test4 w t = Continue t' \<Longrightarrow> I 5 t'"
    and "\<And>t t'. I 5 t \<Longrightarrow> test5 w t = Continue t' \<Longrightarrow> I 6 t'"
    and "\<And>t t'. I 6 t \<Longrightarrow> test6 w t = Continue t' \<Longrightarrow> I 7 t'"
    and "\<And>t t'. I 7 t \<Longrightarrow> test7 w t = Continue t' \<Longrightarrow> I 8 t'"
    and "\<And>t n t'. I 1 t \<Longrightarrow> test1 w t = Exit n t' \<Longrightarrow> Q 1 n t'"
    and "\<And>t n t'. I 2 t \<Longrightarrow> test2 w t = Exit n t' \<Longrightarrow> Q 2 n t'"
    and "\<And>t n t'. I 3 t \<Longrightarrow> test3 w t = Exit n t' \<Longrightarrow> Q 3 n t'"
    and "\<And>t n t'. I 4 t \<Longrightarrow> test4 w t = Exit n t' \<Longrightarrow> Q 4 n t'"
    and "\<And>t n t'. I 5 t \<Longrightarrow> test5 w t = Exit n t' \<Longrightarrow> Q 5 n t'"
    and "\<And>t n t'. I 6 t \<Longrightarrow> test6 w t = Exit n t' \<Longrightarrow> Q 6 n t'"
    and "\<And>t n t'. I 7 t \<Longrightarrow> test7 w t = Exit n t' \<Longrightarrow> Q 7 n t'"
  shows "case ts_outcome w of Completed s' \<Rightarrow> I 8 s' | Failed k n s' \<Rightarrow> Q k n s'"
proof -
  have "case run_checks 1 (take 7 (checks w)) (ts_start w) of
          Completed s' \<Rightarrow> I (Suc 7) s' | Failed k n s' \<Rightarrow> Q k n s'"
    by (rule ts_prefix_rule[where I = I and Q = Q]) (blast intro: assms)+
  moreover have "take 7 (checks w) = checks w" by (simp add: checks_def)
  ultimately show ?thesis unfolding ts_outcome_def by (simp split: outcome.splits)
qed
lemma run_checks_Failed_bounds:
  "run_checks i cs s = Failed k n s' \<Longrightarrow> i \<le> k \<and> k < i + length cs"
proof (induction cs arbitrary: i s)
  case Nil
  then show ?case by simp
next
  case (Cons c cs)
  then show ?case
    by (cases "c s") (auto dest: Cons.IH)
qed

lemma run_checks_Failed_take:
  "run_checks i cs s = Failed k n s' \<Longrightarrow> k < i + m \<Longrightarrow> run_checks i (take m cs) s = Failed k n s'"
proof (induction cs arbitrary: i s m)
  case Nil
  then show ?case by simp
next
  case (Cons c cs)
  from Cons.prems have "i \<le> k" using run_checks_Failed_bounds by blast
  with Cons.prems(2) obtain m' where m: "m = Suc m'" by (cases m) auto
  show ?case
  proof (cases "c s")
    case (Continue t)
    with Cons.prems have "run_checks (Suc i) cs t = Failed k n s'" by simp
    moreover have "k < Suc i + m'" using Cons.prems(2) m by simp
    ultimately have "run_checks (Suc i) (take m' cs) t = Failed k n s'" by (rule Cons.IH)
    then show ?thesis using Continue m by simp
  next
    case (Exit x t)
    then show ?thesis using Cons.prems m by simp
  qed
qed

lemma failed_check_Some: "failed_check w = Some k \<longleftrightarrow> (\<exists>n s. ts_outcome w = Failed k n s)"
  by (auto simp: failed_check_def split: outcome.splits)

lemma failed_check_None: "failed_check w = None \<longleftrightarrow> (\<exists>s. ts_outcome w = Completed s)"
  by (auto simp: failed_check_def split: outcome.splits)

lemma ts_outcome_bounds: "ts_outcome w = Failed k n s \<Longrightarrow> 1 \<le> k \<and> k \<le> 7"
  using run_checks_Failed_bounds[of 1 "checks w" "ts_start w" k n s]
  by (simp add: ts_outcome_def checks_def)

subsection \<open>The invariants hold\<close>

lemma counts_rule:
  "case ts_outcome w of Completed s' \<Rightarrow> counts_before 8 s' | Failed k n s' \<Rightarrow> counts_failed k n s'"
proof (rule ts_outcome_rule[where I = counts_before and Q = counts_failed])
  show "counts_before 1 (ts_start w)"
    by (simp add: counts_before_def ts_start_def initial_def step_defs line_simps)
next
  fix t t' assume "counts_before 1 t" "test1 w t = Continue t'"
  then show "counts_before 2 t'"
    by (auto simp: counts_before_def test1_def step_defs line_simps upt_small split: option.splits)
next
  fix t t' assume "counts_before 2 t" "test2 w t = Continue t'"
  then show "counts_before 3 t'"
    by (auto simp: counts_before_def test2_def step_defs line_simps upt_small split: sum.splits if_splits)
next
  fix t t' assume "counts_before 3 t" "test3 w t = Continue t'"
  then show "counts_before 4 t'"
    by (auto simp: counts_before_def test3_def step_defs line_simps upt_small split: sum.splits)
next
  fix t t' assume "counts_before 4 t" "test4 w t = Continue t'"
  then show "counts_before 5 t'"
    by (auto simp: counts_before_def test4_def step_defs line_simps upt_small split: sum.splits var.splits)
next
  fix t t' assume "counts_before 5 t" "test5 w t = Continue t'"
  then show "counts_before 6 t'"
    by (auto simp: counts_before_def test5_def step_defs line_simps upt_small split: sum.splits)
next
  fix t t' assume "counts_before 6 t" "test6 w t = Continue t'"
  then show "counts_before 7 t'"
    by (auto simp: counts_before_def test6_def step_defs line_simps upt_small split: sum.splits var.splits)
next
  fix t t' assume "counts_before 7 t" "test7 w t = Continue t'"
  then show "counts_before 8 t'"
    by (auto simp: counts_before_def test7_def step_defs line_simps upt_small
        split: sum.splits var.splits option.splits)
next
  fix t n t' assume "counts_before 1 t" "test1 w t = Exit n t'"
  then show "counts_failed 1 n t'"
    by (auto simp: counts_before_def counts_failed_def test1_def step_defs line_simps upt_small
        split: option.splits)
next
  fix t n t' assume "counts_before 2 t" "test2 w t = Exit n t'"
  then show "counts_failed 2 n t'"
    by (auto simp: counts_before_def counts_failed_def test2_def step_defs line_simps upt_small
        split: sum.splits if_splits)
next
  fix t n t' assume "counts_before 3 t" "test3 w t = Exit n t'"
  then show "counts_failed 3 n t'"
    by (auto simp: counts_before_def counts_failed_def test3_def step_defs line_simps upt_small
        split: sum.splits)
next
  fix t n t' assume "counts_before 4 t" "test4 w t = Exit n t'"
  then show "counts_failed 4 n t'"
    by (auto simp: counts_before_def counts_failed_def test4_def step_defs line_simps upt_small
        split: sum.splits var.splits)
next
  fix t n t' assume "counts_before 5 t" "test5 w t = Exit n t'"
  then show "counts_failed 5 n t'"
    by (auto simp: counts_before_def counts_failed_def test5_def step_defs line_simps upt_small
        split: sum.splits)
next
  fix t n t' assume "counts_before 6 t" "test6 w t = Exit n t'"
  then show "counts_failed 6 n t'"
    by (auto simp: counts_before_def counts_failed_def test6_def step_defs line_simps upt_small
        split: sum.splits var.splits)
next
  fix t n t' assume "counts_before 7 t" "test7 w t = Exit n t'"
  then show "counts_failed 7 n t'"
    by (auto simp: counts_before_def counts_failed_def test7_def step_defs line_simps upt_small
        butlast_append split: sum.splits var.splits option.splits)
qed


lemma calls_rule:
  "case ts_outcome w of Completed s' \<Rightarrow> calls_before 8 s' | Failed k n s' \<Rightarrow> calls_failed k n s'"
proof (rule ts_outcome_rule[where I = calls_before and Q = calls_failed])
  show "calls_before 1 (ts_start w)"
    by (simp add: calls_before_def ts_start_def initial_def step_defs line_simps call_order_def)
next
  fix t t' assume "calls_before 1 t" "test1 w t = Continue t'"
  then show "calls_before 2 t'"
    by (auto simp: calls_before_def test1_def step_defs line_simps call_order_def
        split: option.splits)
next
  fix t t' assume "calls_before 2 t" "test2 w t = Continue t'"
  then show "calls_before 3 t'"
    by (auto simp: calls_before_def test2_def step_defs line_simps call_order_def
        split: sum.splits if_splits)
next
  fix t t' assume "calls_before 3 t" "test3 w t = Continue t'"
  then show "calls_before 4 t'"
    by (auto simp: calls_before_def test3_def step_defs line_simps call_order_def
        split: sum.splits)
next
  fix t t' assume "calls_before 4 t" "test4 w t = Continue t'"
  then show "calls_before 5 t'"
    by (auto simp: calls_before_def test4_def step_defs line_simps call_order_def
        split: sum.splits var.splits)
next
  fix t t' assume "calls_before 5 t" "test5 w t = Continue t'"
  then show "calls_before 6 t'"
    by (auto simp: calls_before_def test5_def step_defs line_simps call_order_def
        split: sum.splits)
next
  fix t t' assume "calls_before 6 t" "test6 w t = Continue t'"
  then show "calls_before 7 t'"
    by (auto simp: calls_before_def test6_def step_defs line_simps call_order_def
        split: sum.splits var.splits)
next
  fix t t' assume "calls_before 7 t" "test7 w t = Continue t'"
  then show "calls_before 8 t'"
    by (auto simp: calls_before_def test7_def step_defs line_simps call_order_def
        split: sum.splits var.splits option.splits)
next
  fix t n t' assume "calls_before 1 t" "test1 w t = Exit n t'"
  then show "calls_failed 1 n t'"
    by (auto simp: calls_before_def calls_failed_def test1_def step_defs line_simps call_order_def
        split: option.splits)
next
  fix t n t' assume "calls_before 2 t" "test2 w t = Exit n t'"
  then show "calls_failed 2 n t'"
    by (auto simp: calls_before_def calls_failed_def test2_def step_defs line_simps call_order_def
        split: sum.splits if_splits)
next
  fix t n t' assume "calls_before 3 t" "test3 w t = Exit n t'"
  then show "calls_failed 3 n t'"
    by (auto simp: calls_before_def calls_failed_def test3_def step_defs line_simps call_order_def
        split: sum.splits)
next
  fix t n t' assume "calls_before 4 t" "test4 w t = Exit n t'"
  then show "calls_failed 4 n t'"
    by (auto simp: calls_before_def calls_failed_def test4_def step_defs line_simps call_order_def
        split: sum.splits var.splits)
next
  fix t n t' assume "calls_before 5 t" "test5 w t = Exit n t'"
  then show "calls_failed 5 n t'"
    by (auto simp: calls_before_def calls_failed_def test5_def step_defs line_simps call_order_def
        split: sum.splits)
next
  fix t n t' assume "calls_before 6 t" "test6 w t = Exit n t'"
  then show "calls_failed 6 n t'"
    by (auto simp: calls_before_def calls_failed_def test6_def step_defs line_simps call_order_def
        split: sum.splits var.splits)
next
  fix t n t' assume "calls_before 7 t" "test7 w t = Exit n t'"
  then show "calls_failed 7 n t'"
    by (auto simp: calls_before_def calls_failed_def test7_def step_defs line_simps call_order_def
        split: sum.splits var.splits option.splits)
qed
lemma truthy_SomeD: "truthy x \<Longrightarrow> \<exists>v. x = Some v"
  by (cases x) simp_all


lemma reached_rule:
  assumes "m \<le> 7"
  shows "case run_checks 1 (take m (checks w)) (ts_start w) of
           Completed s' \<Rightarrow> reached_before w (Suc m) s' | Failed k n s' \<Rightarrow> failed_at w k n s'"
proof (rule ts_prefix_rule[where I = "reached_before w" and Q = "failed_at w"])
  show "reached_before w 1 (ts_start w)"
    by (simp add: reached_before_def ts_start_def initial_def step_defs upt_small)
next
  fix t t' assume "reached_before w 1 t" "test1 w t = Continue t'"
  then show "reached_before w 2 t'"
    by (auto simp: reached_before_def action_fails_def environ_read_def test1_def step_defs
        upt_small map_upd_triv dest: truthy_SomeD split: option.splits)
next
  fix t t' assume "reached_before w 2 t" "test2 w t = Continue t'"
  then show "reached_before w 3 t'"
    by (auto simp: reached_before_def action_fails_def environ_read_def test2_def step_defs
        upt_small map_upd_triv dest: truthy_SomeD split: sum.splits if_splits)
next
  fix t t' assume "reached_before w 3 t" "test3 w t = Continue t'"
  then show "reached_before w 4 t'"
    by (auto simp: reached_before_def action_fails_def environ_read_def test3_def step_defs
        upt_small map_upd_triv dest: truthy_SomeD split: sum.splits)
next
  fix t t' assume "reached_before w 4 t" "test4 w t = Continue t'"
  then show "reached_before w 5 t'"
    by (auto simp: reached_before_def action_fails_def environ_read_def test4_def step_defs
        upt_small map_upd_triv dest: truthy_SomeD split: sum.splits var.splits)
next
  fix t t' assume "reached_before w 5 t" "test5 w t = Continue t'"
  then show "reached_before w 6 t'"
    by (auto simp: reached_before_def action_fails_def environ_read_def test5_def step_defs
        upt_small map_upd_triv dest: truthy_SomeD split: sum.splits)
next
  fix t t' assume "reached_before w 6 t" "test6 w t = Continue t'"
  then show "reached_before w 7 t'"
    by (auto simp: reached_before_def action_fails_def environ_read_def test6_def step_defs
        upt_small map_upd_triv dest: truthy_SomeD split: sum.splits var.splits)
next
  fix t t' assume "reached_before w 7 t" "test7 w t = Continue t'"
  then show "reached_before w 8 t'"
    by (auto simp: reached_before_def action_fails_def environ_read_def test7_def step_defs
        upt_small map_upd_triv dest: truthy_SomeD split: sum.splits var.splits option.splits)
next
  fix t n t' assume "reached_before w 1 t" "test1 w t = Exit n t'"
  then show "failed_at w 1 n t'"
    by (auto simp: reached_before_def failed_at_def action_fails_def environ_read_def test1_def
        step_defs upt_small map_upd_triv dest: truthy_SomeD split: option.splits)
next
  fix t n t' assume "reached_before w 2 t" "test2 w t = Exit n t'"
  then show "failed_at w 2 n t'"
    by (auto simp: reached_before_def failed_at_def action_fails_def environ_read_def test2_def
        step_defs upt_small map_upd_triv dest: truthy_SomeD split: sum.splits if_splits)
next
  fix t n t' assume "reached_before w 3 t" "test3 w t = Exit n t'"
  then show "failed_at w 3 n t'"
    by (auto simp: reached_before_def failed_at_def action_fails_def environ_read_def test3_def
        step_defs upt_small map_upd_triv dest: truthy_SomeD split: sum.splits)
next
  fix t n t' assume "reached_before w 4 t" "test4 w t = Exit n t'"
  then show "failed_at w 4 n t'"
    by (auto simp: reached_before_def failed_at_def action_fails_def environ_read_def test4_def
        step_defs upt_small map_upd_triv dest: truthy_SomeD split: sum.splits var.splits)
next
  fix t n t' assume "reached_before w 5 t" "test5 w t = Exit n t'"
  then show "failed_at w 5 n t'"
    by (auto simp: reached_before_def failed_at_def action_fails_def environ_read_def test5_def
        step_defs upt_small map_upd_triv dest: truthy_SomeD split: sum.splits)
next
  fix t n t' assume "reached_before w 6 t" "test6 w t = Exit n t'"
  then show "failed_at w 6 n t'"
    by (auto simp: reached_before_def failed_at_def action_fails_def environ_read_def test6_def
        step_defs upt_small map_upd_triv dest: truthy_SomeD split: sum.splits var.splits)
next
  fix t n t' assume "reached_before w 7 t" "test7 w t = Exit n t'"
  then show "failed_at w 7 n t'"
    by (auto simp: reached_before_def failed_at_def action_fails_def environ_read_def test7_def
        step_defs upt_small map_upd_triv dest: truthy_SomeD split: sum.splits var.splits option.splits)
next
  show "m \<le> 7" by (rule assms)
qed

subsection \<open>The first failing action ends the run\<close>

lemma action_fails_range: "action_fails w k \<Longrightarrow> 1 \<le> k \<and> k \<le> 7"
  by (auto simp: action_fails_def split: if_splits)

lemma first_failure_ends_run:
  assumes "action_fails w k" and "list_all (\<lambda>i. \<not> action_fails w i) [1..<k]"
  shows "failed_check w = Some k"
proof -
  have k: "1 \<le> k" "k \<le> 7" using action_fails_range[OF assms(1)] by simp_all
  have full: "take 7 (checks w) = checks w" by (simp add: checks_def)
  have r: "case ts_outcome w of
             Completed s' \<Rightarrow> reached_before w 8 s' | Failed j n s' \<Rightarrow> failed_at w j n s'"
    using reached_rule[of 7 w] unfolding full ts_outcome_def by (simp split: outcome.splits)
  show ?thesis
  proof (cases "ts_outcome w")
    case (Completed s)
    with r have "list_all (\<lambda>i. \<not> action_fails w i) [1..<8]" by (simp add: reached_before_def)
    then have "\<not> action_fails w k" using k by (simp add: list_all_iff)
    with assms(1) show ?thesis by simp
  next
    case (Failed j n s)
    with r have f: "action_fails w j" "list_all (\<lambda>i. \<not> action_fails w i) [1..<j]"
      by (simp_all add: failed_at_def)
    have j: "1 \<le> j" using action_fails_range[OF f(1)] by simp
    have "\<not> j < k" using assms(2) f(1) j by (auto simp: list_all_iff)
    moreover have "\<not> k < j" using f(2) assms(1) k by (auto simp: list_all_iff)
    ultimately have "j = k" by simp
    with Failed show ?thesis by (simp add: failed_check_def)
  qed
qed

lemma after_failure:
  assumes "failed_check w = Some k"
  shows "fst (test_setup w) = 1 \<and> 1 \<le> k \<and> k \<le> 7 \<and>
         (\<forall>c \<in> set (calls (trace (snd (test_setup w)))). check_of c \<le> k) \<and>
         (\<forall>j \<in> set (begun (stdout (snd (test_setup w)))). j \<le> k) \<and>
         (\<forall>j. k < j \<longrightarrow> check_events w j = None)"
proof -
  from assms obtain n s where out: "ts_outcome w = Failed k n s"
    by (auto simp: failed_check_Some)
  have fin: "test_setup w = (n, s)" by (simp add: test_setup_def out)
  have cf: "counts_failed k n s" using counts_rule[of w] out by simp
  have kf: "calls_failed k n s" using calls_rule[of w] out by simp
  have n: "n = 1" using cf by (simp add: counts_failed_def)
  have "set (map check_of (calls (trace s))) \<subseteq> set (filter (\<lambda>i. i \<le> k) call_order)"
    using kf unfolding calls_failed_def by (rule set_mono_prefix)
  then have c: "\<forall>c \<in> set (calls (trace s)). check_of c \<le> k" by auto
  have "begun (stdout s) = [1..<Suc k]" using cf by (simp add: counts_failed_def)
  then have b: "\<forall>j \<in> set (begun (stdout s)). j \<le> k" by auto
  have e: "\<forall>j. k < j \<longrightarrow> check_events w j = None"
  proof (intro allI impI)
    fix j assume "k < j"
    then have "k < 1 + (j - 1)" by simp
    with out have "run_checks 1 (take (j - 1) (checks w)) (ts_start w) = Failed k n s"
      unfolding ts_outcome_def by (rule run_checks_Failed_take)
    then show "check_events w j = None" by (simp add: check_events_def)
  qed
  show ?thesis using fin n ts_outcome_bounds[OF out] c b e by simp
qed


subsection \<open>The first two checks\<close>

lemma ts_import_fails:
  assumes "import_test_setup w = Some e"
  shows "ts_outcome w = Failed 1 1
     \<lparr>trace = [Print ts_header, Print separator, Print ''1. Testing imports...'',
        Call ImportModules, Print (error_line ''Import error'' e)],
      environ = os_environ w, PINECONE_API_KEY = Unbound, GOOGLE_API_KEY = Unbound,
      extracted_data = Unbound\<rparr>"
  using assms
  by (simp add: ts_outcome_def checks_def ts_start_def test1_def initial_def
      py_print_def record_call_def Let_def)

lemma ts_load_dotenv_raises:
  assumes "import_test_setup w = None" and "load_dotenv w (os_environ w) = Inl e"
  shows "ts_outcome w = Failed 2 1
     \<lparr>trace = [Print ts_header, Print separator, Print ''1. Testing imports...'',
        Call ImportModules, Print (ok_line ''All imports successful!''),
        Print ''2. Testing environment variables...'', Call LoadDotenv,
        Print (error_line ''Environment error'' e)],
      environ = os_environ w, PINECONE_API_KEY = Unbound, GOOGLE_API_KEY = Unbound,
      extracted_data = Unbound\<rparr>"
  using assms
  by (simp add: ts_outcome_def checks_def ts_start_def test1_def test2_def initial_def
      py_print_def record_call_def Let_def)

lemma ts_env_check_fails:
  assumes "import_test_setup w = None" and "load_dotenv w (os_environ w) = Inr env"
    and "\<not> (truthy (env ''PINECONE_API_KEY'') \<and> truthy (env ''GOOGLE_API_KEY''))"
  shows "ts_outcome w = Failed 2 1
     \<lparr>trace = [Print ts_header, Print separator, Print ''1. Testing imports...'',
        Call ImportModules, Print (ok_line ''All imports successful!''),
        Print ''2. Testing environment variables...'', Call LoadDotenv, Print keys_missing_line],
      environ = env, PINECONE_API_KEY = Bound (env ''PINECONE_API_KEY''),
      GOOGLE_API_KEY = Bound (env ''GOOGLE_API_KEY''), extracted_data = Unbound\<rparr>"
  using assms
  by (auto simp: ts_outcome_def checks_def ts_start_def test1_def test2_def initial_def
      py_print_def record_call_def Let_def)

lemma ts_env_check_passes:
  assumes "import_test_setup w = None" and "load_dotenv w (os_environ w) = Inr env"
    and "truthy (env ''PINECONE_API_KEY'')" and "truthy (env ''GOOGLE_API_KEY'')"
  shows "failed_check w \<noteq> Some 2"
proof -
  obtain s where "ts_outcome w = run_checks 3 [test3 w, test4 w, test5 w, test6 w, test7 w] s"
    using assms
    by (auto simp: ts_outcome_def checks_def ts_start_def test1_def test2_def initial_def
        py_print_def record_call_def Let_def numeral_eq_Suc)
  then show ?thesis
    using run_checks_Failed_bounds[of 3 "[test3 w, test4 w, test5 w, test6 w, test7 w]" s]
    by (auto simp: failed_check_def split: outcome.splits)
qed

subsection \<open>What one check emits and changes\<close>
























section \<open>check_pinecone.py\<close>

text \<open>
  C4. When listing the indexes succeeds (the imports succeeded, the key is truthy, the
  client was built and \<^verbatim>\<open>list_indexes\<close> returned), the script prints the header and the
  list of index names, and then the success pair (\<^verbatim>\<open>'medicalbot' index exists!\<close>, setup
  ready) if \<^verbatim>\<open>medicalbot\<close> is among the names, the not-found line and the guidance to create
  the index otherwise: the success line is printed if and only if the name is there.
\<close>

theorem check_pinecone_reports_index:
  assumes "import_check_pinecone w = None"
    and "load_dotenv w (os_environ w) = Inr env"
    and "truthy (env ''PINECONE_API_KEY'')"
    and "Pinecone w (env ''PINECONE_API_KEY'') = Inr pc"
    and "list_indexes w pc = Inr indexes"
  shows "stdout (snd (check_pinecone w)) =
           [cp_header, cp_available w (map name indexes)] @
           (if ''medicalbot'' \<in> set (map name indexes)
            then [cp_exists, cp_ready] else [cp_not_found, cp_guidance]) \<and>
         (cp_exists \<in> set (stdout (snd (check_pinecone w))) \<longleftrightarrow>
            ''medicalbot'' \<in> set (map name indexes)) \<and>
         (cp_not_found \<in> set (stdout (snd (check_pinecone w))) \<longleftrightarrow>
            ''medicalbot'' \<notin> set (map name indexes))"
proof -
  have out: "stdout (snd (check_pinecone w)) =
           [cp_header, cp_available w (map name indexes)] @
           (if ''medicalbot'' \<in> set (map name indexes)
            then [cp_exists, cp_ready] else [cp_not_found, cp_guidance])"
    using assms by (simp add: cp_defs)
  show ?thesis
    unfolding out using cp_lines_distinct by simp
qed

text \<open>In the world where everything succeeds the index is there and is reported.\<close>

theorem check_pinecone_reports_index_witness:
  "import_check_pinecone good_world = None \<and>
   truthy (Some ''pk'') \<and>
   stdout (snd (check_pinecone good_world)) =
     [cp_header, cp_available good_world [''medicalbot''], cp_exists, cp_ready] \<and>
   cp_exists \<in> set (stdout (snd (check_pinecone good_world)))"
  using check_pinecone_reports_index [of good_world
      "[''PINECONE_API_KEY'' \<mapsto> ''pk'', ''GOOGLE_API_KEY'' \<mapsto> ''gk'']" 0 "[IndexModel ''medicalbot'']"]
  by (simp add: good_world_def)

text \<open>
  C9. A missing index is not a failure: when \<^verbatim>\<open>list_indexes\<close> returns names without
  \<^verbatim>\<open>medicalbot\<close>, the script prints the not-found line and the guidance and ends with
  status 0. In every run, whatever the world, the external calls of the script are an
  initial part of: the imports, \<^verbatim>\<open>load_dotenv\<close>, building the client, \<^verbatim>\<open>list_indexes\<close>.
  Nothing creates or changes an index.
\<close>

theorem check_pinecone_index_absent:
  "(\<exists>key pc. prefix (calls (trace (snd (check_pinecone w))))
       [ImportModules, LoadDotenv, NewPinecone key, ListIndexes pc]) \<and>
   (import_check_pinecone w = None \<longrightarrow>
    load_dotenv w (os_environ w) = Inr env \<longrightarrow>
    truthy (env ''PINECONE_API_KEY'') \<longrightarrow>
    Pinecone w (env ''PINECONE_API_KEY'') = Inr pc \<longrightarrow>
    list_indexes w pc = Inr indexes \<longrightarrow>
    ''medicalbot'' \<notin> set (map name indexes) \<longrightarrow>
      fst (check_pinecone w) = 0 \<and>
      stdout (snd (check_pinecone w)) =
        [cp_header, cp_available w (map name indexes), cp_not_found, cp_guidance] \<and>
      calls (trace (snd (check_pinecone w))) =
        [ImportModules, LoadDotenv, NewPinecone (env ''PINECONE_API_KEY''), ListIndexes pc])"
proof
  show "\<exists>key pc. prefix (calls (trace (snd (check_pinecone w))))
       [ImportModules, LoadDotenv, NewPinecone key, ListIndexes pc]"
    by (auto simp: cp_defs split: option.splits sum.splits)
next
  show "import_check_pinecone w = None \<longrightarrow>
    load_dotenv w (os_environ w) = Inr env \<longrightarrow>
    truthy (env ''PINECONE_API_KEY'') \<longrightarrow>
    Pinecone w (env ''PINECONE_API_KEY'') = Inr pc \<longrightarrow>
    list_indexes w pc = Inr indexes \<longrightarrow>
    ''medicalbot'' \<notin> set (map name indexes) \<longrightarrow>
      fst (check_pinecone w) = 0 \<and>
      stdout (snd (check_pinecone w)) =
        [cp_header, cp_available w (map name indexes), cp_not_found, cp_guidance] \<and>
      calls (trace (snd (check_pinecone w))) =
        [ImportModules, LoadDotenv, NewPinecone (env ''PINECONE_API_KEY''), ListIndexes pc]"
    by (simp add: cp_defs)
qed

text \<open>A world whose only index has another name.\<close>

theorem check_pinecone_index_absent_witness:
  "import_check_pinecone no_index_world = None \<and>
   list_indexes no_index_world 0 = Inr [IndexModel ''other-index''] \<and>
   ''medicalbot'' \<notin> set (map name [IndexModel ''other-index'']) \<and>
   fst (check_pinecone no_index_world) = 0 \<and>
   stdout (snd (check_pinecone no_index_world)) =
     [cp_header, cp_available no_index_world [''other-index''], cp_not_found, cp_guidance] \<and>
   calls (trace (snd (check_pinecone no_index_world))) =
     [ImportModules, LoadDotenv, NewPinecone (Some ''pk''), ListIndexes 0]"
  using check_pinecone_index_absent [of no_index_world
      "[''PINECONE_API_KEY'' \<mapsto> ''pk'', ''GOOGLE_API_KEY'' \<mapsto> ''gk'']" 0 "[IndexModel ''other-index'']"]
  by (simp add: no_index_world_def good_world_def)

text \<open>
  C1. Every failure path of both scripts should end the process with exit status 1,
  an exception raised while listing the indexes in \<^verbatim>\<open>check_pinecone.py\<close> included. That
  path does not: when \<^verbatim>\<open>list_indexes\<close> raises, the handler prints the error line, the
  script reaches the end of the file and the exit status is 0.
\<close>

theorem check_pinecone_list_indexes_raises_exit_status:
  "fst (check_pinecone list_indexes_fails_world) = 0 \<and>
   stdout (snd (check_pinecone list_indexes_fails_world)) =
     [cp_header, cp_error ''connection refused'']"
  by (simp add: check_pinecone_def list_indexes_fails_world_def good_world_def cp_connect_def
      cp_except_def initial_def py_print_def record_call_def stdout_def Let_def)

section \<open>The environment-variable check\<close>

text \<open>
  C5. When a required key is absent from the environment that the key check reads, no
  Pinecone client, document loader, embedding model or language model is ever invoked:
  the external calls of the run are at most the imports and \<^verbatim>\<open>load_dotenv\<close>.
  \<^verbatim>\<open>test_setup.py\<close>, which requires both keys, then exits with status 1 in every such run:
  at the environment-variable check (check 2) when the imports succeeded, at the import
  check otherwise; the last line it prints when \<^verbatim>\<open>load_dotenv\<close> returned is the
  keys-not-found line. \<^verbatim>\<open>check_pinecone.py\<close>, which requires the vector-database key, prints
  the key-not-found line and exits with status 1 whenever it reaches the key check.
\<close>

theorem missing_key_fails_before_collaborators:
  "(environ_read w ''PINECONE_API_KEY'' = None \<or> environ_read w ''GOOGLE_API_KEY'' = None \<longrightarrow>
      fst (test_setup w) = 1 \<and>
      failed_check w = Some (if import_test_setup w = None then 2 else 1) \<and>
      prefix (calls (trace (snd (test_setup w)))) [ImportModules, LoadDotenv] \<and>
      (import_test_setup w = None \<longrightarrow> load_dotenv w (os_environ w) = Inr (environ_read w) \<longrightarrow>
         last (stdout (snd (test_setup w))) = keys_missing_line)) \<and>
   (environ_read w ''PINECONE_API_KEY'' = None \<longrightarrow>
      prefix (calls (trace (snd (check_pinecone w)))) [ImportModules, LoadDotenv] \<and>
      (import_check_pinecone w = None \<longrightarrow> load_dotenv w (os_environ w) = Inr (environ_read w) \<longrightarrow>
         fst (check_pinecone w) = 1 \<and>
         stdout (snd (check_pinecone w)) = [cp_header, cp_key_missing]))"
proof (intro conjI impI)
  assume a: "environ_read w ''PINECONE_API_KEY'' = None \<or> environ_read w ''GOOGLE_API_KEY'' = None"
  have "fst (test_setup w) = 1 \<and>
      failed_check w = Some (if import_test_setup w = None then 2 else 1) \<and>
      prefix (calls (trace (snd (test_setup w)))) [ImportModules, LoadDotenv] \<and>
      (import_test_setup w = None \<longrightarrow> load_dotenv w (os_environ w) = Inr (environ_read w) \<longrightarrow>
         last (stdout (snd (test_setup w))) = keys_missing_line)"
  proof (cases "import_test_setup w")
    case (Some e)
    show ?thesis
      by (simp add: test_setup_def failed_check_def ts_import_fails[OF Some] Some)
  next
    case None
    show ?thesis
    proof (cases "load_dotenv w (os_environ w)")
      case (Inl e)
      show ?thesis
        by (simp add: test_setup_def failed_check_def ts_load_dotenv_raises[OF None Inl] None Inl)
    next
      case (Inr env)
      with a have "\<not> (truthy (env ''PINECONE_API_KEY'') \<and> truthy (env ''GOOGLE_API_KEY''))"
        by (auto simp: environ_read_def)
      note out = ts_env_check_fails[OF None Inr this]
      show ?thesis
        by (simp add: test_setup_def failed_check_def out None stdout_def)
    qed
  qed
  then show "fst (test_setup w) = 1"
    and "failed_check w = Some (if import_test_setup w = None then 2 else 1)"
    and "prefix (calls (trace (snd (test_setup w)))) [ImportModules, LoadDotenv]"
    and "import_test_setup w = None \<Longrightarrow> load_dotenv w (os_environ w) = Inr (environ_read w) \<Longrightarrow>
         last (stdout (snd (test_setup w))) = keys_missing_line"
    by simp_all
next
  assume a: "environ_read w ''PINECONE_API_KEY'' = None"
  then show "prefix (calls (trace (snd (check_pinecone w)))) [ImportModules, LoadDotenv]"
    by (auto simp: cp_defs environ_read_def split: option.splits sum.splits)
next
  assume a: "environ_read w ''PINECONE_API_KEY'' = None" "import_check_pinecone w = None"
    "load_dotenv w (os_environ w) = Inr (environ_read w)"
  then show "fst (check_pinecone w) = 1" by (simp add: cp_defs)
  from a show "stdout (snd (check_pinecone w)) = [cp_header, cp_key_missing]" by (simp add: cp_defs)
qed

text \<open>No key anywhere: both scripts stop at the key check.\<close>

theorem missing_key_fails_before_collaborators_witness:
  "environ_read no_keys_world ''PINECONE_API_KEY'' = None \<and>
   import_test_setup no_keys_world = None \<and> import_check_pinecone no_keys_world = None \<and>
   load_dotenv no_keys_world (os_environ no_keys_world) = Inr (environ_read no_keys_world) \<and>
   failed_check no_keys_world = Some 2 \<and> fst (test_setup no_keys_world) = 1 \<and>
   prefix (calls (trace (snd (test_setup no_keys_world)))) [ImportModules, LoadDotenv] \<and>
   last (stdout (snd (test_setup no_keys_world))) = keys_missing_line \<and>
   fst (check_pinecone no_keys_world) = 1 \<and>
   stdout (snd (check_pinecone no_keys_world)) = [cp_header, cp_key_missing]"
proof -
  have h: "environ_read no_keys_world ''PINECONE_API_KEY'' = None"
    "import_test_setup no_keys_world = None" "import_check_pinecone no_keys_world = None"
    "load_dotenv no_keys_world (os_environ no_keys_world) = Inr (environ_read no_keys_world)"
    by (simp_all add: environ_read_def no_keys_world_def good_world_def)
  show ?thesis
    using missing_key_fails_before_collaborators [of no_keys_world] h by simp
qed

text \<open>
  With no key anywhere and the imports raising, \<^verbatim>\<open>test_setup.py\<close> ends at the import check,
  not at the environment-variable check, and \<^verbatim>\<open>check_pinecone.py\<close> ends with status 0.
\<close>

theorem missing_key_import_failure:
  "environ_read imports_fail_world ''PINECONE_API_KEY'' = None \<and>
   environ_read imports_fail_world ''GOOGLE_API_KEY'' = None \<and>
   failed_check imports_fail_world = Some 1 \<and>
   fst (check_pinecone imports_fail_world) = 0"
  by code_simp

text \<open>
  C10. The key check tests truthiness, so a key set to the empty string is treated as an
  absent one. In a run that reaches the check, \<^verbatim>\<open>test_setup.py\<close> fails at check 2 exactly
  when one of the two keys is falsy, and then prints the keys-not-found line last and
  exits with status 1; \<^verbatim>\<open>check_pinecone.py\<close> exits with status 1 exactly when its key is
  falsy, and then prints the key-not-found line.
\<close>

theorem falsy_key_fails_environment_check:
  assumes "load_dotenv w (os_environ w) = Inr env"
  shows "(import_test_setup w = None \<longrightarrow>
           (failed_check w = Some 2 \<longleftrightarrow>
              \<not> (truthy (env ''PINECONE_API_KEY'') \<and> truthy (env ''GOOGLE_API_KEY''))) \<and>
           (\<not> (truthy (env ''PINECONE_API_KEY'') \<and> truthy (env ''GOOGLE_API_KEY'')) \<longrightarrow>
              fst (test_setup w) = 1 \<and>
              last (stdout (snd (test_setup w))) = keys_missing_line)) \<and>
         (import_check_pinecone w = None \<longrightarrow>
           (fst (check_pinecone w) = 1 \<longleftrightarrow> \<not> truthy (env ''PINECONE_API_KEY'')) \<and>
           (\<not> truthy (env ''PINECONE_API_KEY'') \<longrightarrow>
              stdout (snd (check_pinecone w)) = [cp_header, cp_key_missing]))"
proof (intro conjI impI)
  assume a: "import_test_setup w = None"
  show "failed_check w = Some 2 \<longleftrightarrow>
          \<not> (truthy (env ''PINECONE_API_KEY'') \<and> truthy (env ''GOOGLE_API_KEY''))"
    using ts_env_check_fails[OF a assms] ts_env_check_passes[OF a assms]
    by (auto simp: failed_check_def)
next
  assume a: "import_test_setup w = None"
    and e: "\<not> (truthy (env ''PINECONE_API_KEY'') \<and> truthy (env ''GOOGLE_API_KEY''))"
  note out = ts_env_check_fails[OF a assms e]
  show "fst (test_setup w) = 1" by (simp add: test_setup_def out)
  show "last (stdout (snd (test_setup w))) = keys_missing_line"
    by (simp add: test_setup_def out stdout_def)
next
  assume a: "import_check_pinecone w = None"
  show "fst (check_pinecone w) = 1 \<longleftrightarrow> \<not> truthy (env ''PINECONE_API_KEY'')"
    using a assms by (auto simp: cp_defs split: sum.splits if_splits)
next
  assume a: "import_check_pinecone w = None" and e: "\<not> truthy (env ''PINECONE_API_KEY'')"
  show "stdout (snd (check_pinecone w)) = [cp_header, cp_key_missing]"
    using a e assms by (simp add: cp_defs)
qed

text \<open>The vector-database key is the empty string.\<close>

theorem falsy_key_fails_environment_check_witness:
  "load_dotenv empty_key_world (os_environ empty_key_world) =
     Inr [''PINECONE_API_KEY'' \<mapsto> '''', ''GOOGLE_API_KEY'' \<mapsto> ''gk''] \<and>
   failed_check empty_key_world = Some 2 \<and>
   fst (test_setup empty_key_world) = 1 \<and>
   last (stdout (snd (test_setup empty_key_world))) = keys_missing_line \<and>
   fst (check_pinecone empty_key_world) = 1 \<and>
   stdout (snd (check_pinecone empty_key_world)) = [cp_header, cp_key_missing]"
proof -
  have h: "load_dotenv empty_key_world (os_environ empty_key_world) =
      Inr [''PINECONE_API_KEY'' \<mapsto> '''', ''GOOGLE_API_KEY'' \<mapsto> ''gk'']"
    by (simp add: empty_key_world_def good_world_def)
  have i: "import_test_setup empty_key_world = None" "import_check_pinecone empty_key_world = None"
    by (simp_all add: empty_key_world_def good_world_def)
  show ?thesis
    using falsy_key_fails_environment_check [OF h] h i by simp
qed

section \<open>The run of test_setup.py\<close>

text \<open>
  C6. When no check fails, the exit status is 0; the external calls are those of checks
  1 to 7 in this order; the seven checks are announced in order; the number of success
  lines equals the number of checks and there is no failure line; and the output ends
  with the separator, the success banner and the next-steps text.
\<close>

theorem all_checks_succeed:
  assumes "failed_check w = None"
  shows "fst (test_setup w) = 0 \<and>
         map check_of (calls (trace (snd (test_setup w)))) = [1, 2, 3, 4, 5, 6, 6, 7, 7, 7] \<and>
         begun (stdout (snd (test_setup w))) = [1, 2, 3, 4, 5, 6, 7] \<and>
         length (filter is_success_line (stdout (snd (test_setup w)))) = length (checks w) \<and>
         filter is_failure_line (stdout (snd (test_setup w))) = [] \<and>
         (\<exists>ls. stdout (snd (test_setup w)) = ls @ banner_lines \<and>
               length (filter is_success_line ls) = length (checks w))"
proof -
  from assms obtain s where out: "ts_outcome w = Completed s"
    by (auto simp: failed_check_None)
  have fin: "test_setup w = (0, ts_banner s)" by (simp add: test_setup_def out)
  have cb: "counts_before 8 s" using counts_rule[of w] out by simp
  have kb: "calls_before 8 s" using calls_rule[of w] out by simp
  have len: "length (checks w) = 7" by (simp add: checks_def)
  have 1: "map check_of (calls (trace (ts_banner s))) = [1, 2, 3, 4, 5, 6, 6, 7, 7, 7]"
    using kb by (simp add: calls_before_def call_order_def trace_ts_banner)
  have 2: "begun (stdout (ts_banner s)) = [1, 2, 3, 4, 5, 6, 7]"
    using cb by (simp add: counts_before_def stdout_ts_banner begun_append banner_lines_kinds upt_small)
  have 3: "length (filter is_success_line (stdout s)) = 7"
    using cb by (simp add: counts_before_def)
  have 4: "filter is_failure_line (stdout (ts_banner s)) = []"
    using cb by (simp add: counts_before_def stdout_ts_banner banner_lines_kinds)
  have 5: "length (filter is_success_line (stdout (ts_banner s))) = 7"
    using 3 by (simp add: stdout_ts_banner banner_lines_kinds)
  have 6: "\<exists>ls. stdout (ts_banner s) = ls @ banner_lines \<and> length (filter is_success_line ls) = 7"
    using 3 stdout_ts_banner by blast
  show ?thesis unfolding fin len using 1 2 4 5 6 by simp
qed

text \<open>The world where everything succeeds.\<close>

theorem all_checks_succeed_witness:
  "failed_check good_world = None \<and>
   fst (test_setup good_world) = 0 \<and>
   length (filter is_success_line (stdout (snd (test_setup good_world)))) = 7 \<and>
   drop 17 (stdout (snd (test_setup good_world))) = banner_lines"
proof -
  have h: "failed_check good_world = None" by code_simp
  have l: "drop 17 (stdout (snd (test_setup good_world))) = banner_lines" by code_simp
  have n: "length (checks good_world) = 7" by (simp add: checks_def)
  show ?thesis using all_checks_succeed [OF h] h l n by simp
qed

text \<open>
  C2. When the action of check \<open>k\<close> fails and no earlier action does, the run ends at
  check \<open>k\<close> with status 1: every external call in the trace belongs to a check up to \<open>k\<close>,
  every check announced is one up to \<open>k\<close>, and no later check has any event, so neither
  the PDF loading, the chunking, the embedding load, the Pinecone connection nor the
  Gemini call of a later check is made.
\<close>

theorem no_check_runs_after_failure:
  assumes "action_fails w k" and "list_all (\<lambda>j. \<not> action_fails w j) [1..<k]"
  shows "failed_check w = Some k \<and> fst (test_setup w) = 1 \<and> 1 \<le> k \<and> k \<le> 7 \<and>
         (\<forall>c \<in> set (calls (trace (snd (test_setup w)))). check_of c \<le> k) \<and>
         (\<forall>j \<in> set (begun (stdout (snd (test_setup w)))). j \<le> k) \<and>
         (\<forall>j. k < j \<longrightarrow> check_events w j = None)"
  using first_failure_ends_run[OF assms] after_failure[of w k] by simp

text \<open>Loading the documents raises: the run stops at check 3 after three calls.\<close>

theorem no_check_runs_after_failure_witness:
  "action_fails pdf_fails_world 3 \<and>
   list_all (\<lambda>j. \<not> action_fails pdf_fails_world j) [1..<3] \<and>
   failed_check pdf_fails_world = Some 3 \<and>
   fst (test_setup pdf_fails_world) = 1 \<and>
   calls (trace (snd (test_setup pdf_fails_world))) =
     [ImportModules, LoadDotenv, LoadPdfFile ''Data/''] \<and>
   check_events pdf_fails_world 4 = None"
proof -
  have h: "action_fails pdf_fails_world 3"
    "list_all (\<lambda>j. \<not> action_fails pdf_fails_world j) [1..<3]" by code_simp+
  have c: "calls (trace (snd (test_setup pdf_fails_world))) =
     [ImportModules, LoadDotenv, LoadPdfFile ''Data/'']" by code_simp
  show ?thesis using no_check_runs_after_failure [OF h] h c by simp
qed

text \<open>
  C3. When check \<open>k\<close> is the first to fail, the output has exactly \<open>k\<close> announcing lines,
  \<open>k - 1\<close> success lines and one failure line. For the checks 1 to 6 the failure line is
  the last line printed. For the Gemini check (\<open>k = 7\<close>) it is the last but one: the
  handler prints a tip after it.
\<close>

theorem failing_check_output:
  assumes "failed_check w = Some k"
  shows "length (filter is_begin_line (stdout (snd (test_setup w)))) = k \<and>
         Suc (length (filter is_success_line (stdout (snd (test_setup w))))) = k \<and>
         length (filter is_failure_line (stdout (snd (test_setup w)))) = 1 \<and>
         (if k = 7
          then last (stdout (snd (test_setup w))) = tip_line \<and>
               is_failure_line (last (butlast (stdout (snd (test_setup w)))))
          else is_failure_line (last (stdout (snd (test_setup w)))))"
proof -
  from assms obtain n s where out: "ts_outcome w = Failed k n s"
    by (auto simp: failed_check_Some)
  have fin: "snd (test_setup w) = s" by (simp add: test_setup_def out)
  have cf: "counts_failed k n s" using counts_rule[of w] out by simp
  have k: "1 \<le> k" using ts_outcome_bounds[OF out] by simp
  show ?thesis
    using cf k unfolding fin counts_failed_def by (simp add: length_filter_begin)
qed

text \<open>Loading the documents fails.\<close>

theorem failing_check_output_witness:
  "failed_check pdf_fails_world = Some 3 \<and>
   length (filter is_begin_line (stdout (snd (test_setup pdf_fails_world)))) = 3 \<and>
   length (filter is_success_line (stdout (snd (test_setup pdf_fails_world)))) = 2 \<and>
   last (stdout (snd (test_setup pdf_fails_world))) =
     error_line ''PDF loading error'' ''Data/ not found''"
proof -
  have h: "failed_check pdf_fails_world = Some 3" by code_simp
  have l: "last (stdout (snd (test_setup pdf_fails_world))) =
     error_line ''PDF loading error'' ''Data/ not found''" by code_simp
  show ?thesis using failing_check_output [OF h] h l by simp
qed

text \<open>
  When the language-model call raises, the last line printed is the tip, which is not a
  failure line.
\<close>

theorem gemini_failure_line_not_last:
  "failed_check gemini_fails_world = Some 7 \<and>
   last (stdout (snd (test_setup gemini_fails_world))) = tip_line \<and>
   \<not> is_failure_line (last (stdout (snd (test_setup gemini_fails_world))))"
  by code_simp







end
